theory Spec2Isabelle
  imports Main "HOL-Library.AList"
begin

unbundle bit_operations_syntax

section \<open>Python values, exceptions and integer helpers\<close>

text \<open>
  The exceptions the modelled code can raise. A function that can raise returns
  \<open>error + 'a\<close> (\<open>Inl\<close> the exception); a function that also mutates state returns
  the outcome paired with the state as it is when the function returns or raises.
\<close>

datatype error = KeyError | ValueError | IndexError | ZeroDivisionError | MemoryError

text \<open>
  The Python values that flow through the caches and the memory: \<open>None\<close>, booleans,
  integers, byte strings (the synthesized block contents), text (the payload typed by the
  user) and references to dict objects. A dict is a mutable object: the value
  \<open>PyDict r\<close> is the reference, the contents live in the heap below.
\<close>

datatype pyval = PyNone | PyBool bool | PyInt int | PyBytes "nat list" | PyStr string | PyDict nat

text \<open>\<open>int.bit_length()\<close>: the number of bits of the absolute value, 0 for 0.\<close>

fun bit_length_nat :: "nat \<Rightarrow> nat" where
  "bit_length_nat n = (if n = 0 then 0 else Suc (bit_length_nat (n div 2)))"

declare bit_length_nat.simps [simp del]

definition bit_length :: "int \<Rightarrow> int" where
  "bit_length k = int (bit_length_nat (nat \<bar>k\<bar>))"

text \<open>\<open>a >> n\<close> and \<open>a << n\<close> raise ValueError on a negative shift count.\<close>

definition py_rshift :: "int \<Rightarrow> int \<Rightarrow> error + int" where
  "py_rshift a n = (if n < 0 then Inl ValueError else Inr (drop_bit (nat n) a))"

definition py_lshift :: "int \<Rightarrow> int \<Rightarrow> error + int" where
  "py_lshift a n = (if n < 0 then Inl ValueError else Inr (push_bit (nat n) a))"

section \<open>PageTable.py\<close>

record PageTable =
  pt_entries :: "int \<rightharpoonup> int"
  PAGE_SIZE_KiB :: int
  page_size :: int

definition PageTable_init :: "int \<Rightarrow> PageTable" where
  "PageTable_init kib = \<lparr> pt_entries = Map.empty, PAGE_SIZE_KiB = kib, page_size = kib * 1024 \<rparr>"

definition add_entry :: "PageTable \<Rightarrow> int \<Rightarrow> int \<Rightarrow> PageTable" where
  "add_entry pt virtual_page_number physical_page_number =
     pt\<lparr> pt_entries := (pt_entries pt)(virtual_page_number \<mapsto> physical_page_number) \<rparr>"

definition get_physical_page_number :: "PageTable \<Rightarrow> int \<Rightarrow> int option" where
  "get_physical_page_number pt virtual_page_number = pt_entries pt virtual_page_number"

definition remove_entry :: "PageTable \<Rightarrow> int \<Rightarrow> PageTable" where
  "remove_entry pt virtual_page_number =
     (if virtual_page_number \<in> dom (pt_entries pt)
      then pt\<lparr> pt_entries := (pt_entries pt)(virtual_page_number := None) \<rparr>
      else pt)"

text \<open>
  \<open>update_entry\<close> raises KeyError when the key is absent. The result pairs the outcome
  with the page table as the call leaves it.
\<close>

definition update_entry :: "PageTable \<Rightarrow> int \<Rightarrow> int \<Rightarrow> (error + unit) \<times> PageTable" where
  "update_entry pt virtual_page_number new_physical_page_number =
     (if virtual_page_number \<in> dom (pt_entries pt)
      then (Inr (), pt\<lparr> pt_entries := (pt_entries pt)(virtual_page_number \<mapsto> new_physical_page_number) \<rparr>)
      else (Inl KeyError, pt))"

definition clear :: "PageTable \<Rightarrow> PageTable" where
  "clear pt = pt\<lparr> pt_entries := Map.empty \<rparr>"

section \<open>cache_system.py\<close>

text \<open>
  Sequencing of steps that can raise: the first exception ends the computation.
\<close>

definition err_bind :: "error + 'a \<Rightarrow> ('a \<Rightarrow> error + 'b) \<Rightarrow> error + 'b" where
  "err_bind m f = (case m of Inl e \<Rightarrow> Inl e | Inr x \<Rightarrow> f x)"

text \<open>
  Dicts keep insertion order, so a dict is an association list with distinct keys:
  \<open>k in d\<close> is \<open>contains\<close>, \<open>d[k] = v\<close> is \<open>AList.update\<close> (in place when the key is
  there, appended otherwise), \<open>d.get(k, None)\<close> is \<open>dict_get\<close>.
\<close>

definition contains :: "('k \<times> 'v) list \<Rightarrow> 'k \<Rightarrow> bool" where
  "contains d k = (map_of d k \<noteq> None)"

definition dict_get :: "('k \<times> pyval) list \<Rightarrow> 'k \<Rightarrow> pyval" where
  "dict_get d k = (case map_of d k of None \<Rightarrow> PyNone | Some v \<Rightarrow> v)"

text \<open>\<open>OrderedDict.move_to_end(k)\<close>: raises KeyError when \<open>k\<close> is missing.\<close>

definition move_to_end :: "('k \<times> 'v) list \<Rightarrow> 'k \<Rightarrow> error + ('k \<times> 'v) list" where
  "move_to_end d k =
     (case map_of d k of
        None \<Rightarrow> Inl KeyError
      | Some v \<Rightarrow> Inr (filter (\<lambda>p. fst p \<noteq> k) d @ [(k, v)]))"

text \<open>
  List subscripts. \<open>py_position\<close> resolves the subscript \<open>i\<close> of a list of \<open>len\<close>
  elements: \<open>i\<close> itself when it lies in \<open>0 .. len - 1\<close>, \<open>len + i\<close> when \<open>i\<close> lies in
  \<open>-len .. -1\<close>, and no position otherwise, where Python raises IndexError.
\<close>

definition py_position :: "nat \<Rightarrow> int \<Rightarrow> nat option" where
  "py_position len i =
     (if 0 \<le> i \<and> i < int len then Some (nat i)
      else if i < 0 \<and> - int len \<le> i then Some (nat (int len + i))
      else None)"

definition py_index :: "'a list \<Rightarrow> int \<Rightarrow> error + 'a" where
  "py_index xs i =
     (case py_position (length xs) i of
        None \<Rightarrow> Inl IndexError
      | Some k \<Rightarrow> Inr (xs ! k))"

text \<open>
  The element \<open>xs[i]\<close> is an object that a method call mutates in place;
  \<open>py_list_set\<close> puts the mutated element back at the position \<open>py_index\<close> read.
\<close>

definition py_list_set :: "'a list \<Rightarrow> int \<Rightarrow> 'a \<Rightarrow> 'a list" where
  "py_list_set xs i v =
     (case py_position (length xs) i of
        None \<Rightarrow> xs
      | Some k \<Rightarrow> xs[k := v])"

text \<open>
  The heap of dict objects. Blocks are Python dicts from offset to datum; the same dict
  object is installed in every cache level by \<open>load_block\<close> and stored in the backing
  memory by \<open>get_block\<close>, so a block is a reference into this heap and a write through
  one holder is seen through all of them. \<open>next_ref\<close> is the next unused reference.
\<close>

type_synonym block = "(int \<times> pyval) list"

record heap =
  cells :: "nat \<Rightarrow> block"
  next_ref :: nat

definition heap_empty :: heap where
  "heap_empty = \<lparr> cells = (\<lambda>_. []), next_ref = 0 \<rparr>"

definition heap_alloc :: "heap \<Rightarrow> block \<Rightarrow> nat \<times> heap" where
  "heap_alloc h b = (next_ref h, \<lparr> cells = (cells h)(next_ref h := b), next_ref = Suc (next_ref h) \<rparr>)"

text \<open>
  A value exists in a heap when it is not a reference the heap has yet to hand out.
\<close>

definition value_exists :: "heap \<Rightarrow> pyval \<Rightarrow> bool" where
  "value_exists h v = (case v of PyDict r \<Rightarrow> r < next_ref h | _ \<Rightarrow> True)"

subsection \<open>class CacheSet\<close>

record CacheSet =
  entries :: "(int \<times> nat) list"
  set_n_way :: int
  set_block_size :: int

definition CacheSet_init :: "int \<Rightarrow> int \<Rightarrow> CacheSet" where
  "CacheSet_init n_way' block_size' =
     \<lparr> entries = [], set_n_way = n_way', set_block_size = block_size' \<rparr>"

definition CacheSet_check_hit :: "CacheSet \<Rightarrow> int \<Rightarrow> bool" where
  "CacheSet_check_hit s tag = contains (entries s) tag"

text \<open>\<open>access\<close> returns the block (or None) and the set with the tag moved to the end.\<close>

definition CacheSet_access :: "CacheSet \<Rightarrow> int \<Rightarrow> (error + pyval) \<times> CacheSet" where
  "CacheSet_access s tag =
     (if contains (entries s) tag then
        (case move_to_end (entries s) tag of
           Inl e \<Rightarrow> (Inl e, s)
         | Inr es \<Rightarrow>
             (case map_of es tag of
                None \<Rightarrow> (Inl KeyError, s\<lparr> entries := es \<rparr>)
              | Some r \<Rightarrow> (Inr (PyDict r), s\<lparr> entries := es \<rparr>)))
      else (Inr PyNone, s))"

text \<open>
  \<open>add_or_update\<close>: the two ValueErrors, then overwrite and move to the end when the tag
  is there, else drop the oldest entry when the set is full (\<open>popitem(last=False)\<close>
  raises KeyError on an empty dict) and append.
\<close>

definition CacheSet_add_or_update ::
  "CacheSet \<Rightarrow> heap \<Rightarrow> int \<Rightarrow> pyval \<Rightarrow> (error + unit) \<times> CacheSet" where
  "CacheSet_add_or_update s h tag block =
     (case block of
        PyDict r \<Rightarrow>
          if int (length (cells h r)) > set_block_size s then (Inl ValueError, s)
          else if contains (entries s) tag then
            (case move_to_end (AList.update tag r (entries s)) tag of
               Inl e \<Rightarrow> (Inl e, s\<lparr> entries := AList.update tag r (entries s) \<rparr>)
             | Inr es \<Rightarrow> (Inr (), s\<lparr> entries := es \<rparr>))
          else if int (length (entries s)) \<ge> set_n_way s then
            (case entries s of
               [] \<Rightarrow> (Inl KeyError, s)
             | _ # rest \<Rightarrow> (Inr (), s\<lparr> entries := rest @ [(tag, r)] \<rparr>))
          else (Inr (), s\<lparr> entries := entries s @ [(tag, r)] \<rparr>)
      | _ \<Rightarrow> (Inl ValueError, s))"

definition CacheSet_get_block :: "CacheSet \<Rightarrow> int \<Rightarrow> pyval" where
  "CacheSet_get_block s tag =
     (case map_of (entries s) tag of None \<Rightarrow> PyNone | Some r \<Rightarrow> PyDict r)"

text \<open>
  \<open>write_data\<close> returns None after the write, and False, raising nothing, when the tag
  is absent. The write updates the dict object the tag refers to; the set is not changed.
\<close>

definition CacheSet_write_data ::
  "CacheSet \<Rightarrow> heap \<Rightarrow> int \<Rightarrow> int \<Rightarrow> pyval \<Rightarrow> pyval \<times> heap" where
  "CacheSet_write_data s h tag block_offset data =
     (case map_of (entries s) tag of
        Some r \<Rightarrow>
          (PyNone, h\<lparr> cells := (cells h)(r := AList.update block_offset data (cells h r)) \<rparr>)
      | None \<Rightarrow> (PyBool False, h))"

text \<open>\<open>read_data\<close>: \<open>self.entries[tag]\<close> raises KeyError when the tag is absent.\<close>

definition CacheSet_read_data :: "CacheSet \<Rightarrow> heap \<Rightarrow> int \<Rightarrow> int \<Rightarrow> error + pyval" where
  "CacheSet_read_data s h tag offset =
     (case map_of (entries s) tag of
        None \<Rightarrow> Inl KeyError
      | Some r \<Rightarrow> Inr (dict_get (cells h r) offset))"

subsection \<open>class SetAssociativeCache\<close>

record SetAssociativeCache =
  n_way :: int
  line_size :: int
  num_sets :: int
  block_size :: int
  cache_sets :: "CacheSet list"
  cache_type :: string
  offset_bits :: int
  index_bits :: int
  level :: int

text \<open>The constructor; \<open>//\<close> raises ZeroDivisionError, \<open>range\<close> of a negative count is empty.\<close>

definition SetAssociativeCache_init ::
  "int \<Rightarrow> int \<Rightarrow> int \<Rightarrow> int \<Rightarrow> int \<Rightarrow> string \<Rightarrow> error + SetAssociativeCache" where
  "SetAssociativeCache_init level' size' line_size' n_way' block_size' cache_type' =
     err_bind
       (if cache_type' = ''fully_associative'' then Inr 1
        else if line_size' * n_way' = 0 then Inl ZeroDivisionError
        else Inr (size' div (line_size' * n_way')))
       (\<lambda>num_sets'. Inr
          \<lparr> n_way = n_way',
            line_size = line_size',
            num_sets = num_sets',
            block_size = block_size',
            cache_sets = replicate (nat num_sets') (CacheSet_init n_way' block_size'),
            cache_type = cache_type',
            offset_bits = bit_length block_size' - 1,
            index_bits = bit_length num_sets' - 1,
            level = level' \<rparr>)"

definition get_set_index :: "SetAssociativeCache \<Rightarrow> int \<Rightarrow> error + int" where
  "get_set_index c address =
     (if cache_type c \<in> set [''direct_mapped'', ''set_associative''] then
        err_bind (py_rshift address (offset_bits c)) (\<lambda>shifted.
        err_bind (py_lshift 1 (index_bits c)) (\<lambda>bit.
        Inr (shifted AND (bit - 1))))
      else Inr 0)"

definition get_tag :: "SetAssociativeCache \<Rightarrow> int \<Rightarrow> error + int" where
  "get_tag c address =
     (if cache_type c = ''fully_associative'' then
        (if line_size c = 0 then Inl ZeroDivisionError else Inr (address div line_size c))
      else
        err_bind (get_set_index c address) (\<lambda>set_index.
        py_rshift address (bit_length set_index + bit_length (block_size c) - 1)))"

definition get_offset :: "SetAssociativeCache \<Rightarrow> int \<Rightarrow> error + int" where
  "get_offset c address =
     (if block_size c = 0 then Inl ZeroDivisionError else Inr (address mod block_size c))"

text \<open>
  \<open>check_hit\<close> returns the pair \<open>(hit, level)\<close>. A pair is a non-empty tuple, which
  Python takes for true whatever it holds: \<open>tuple_truthy\<close> is the test that
  \<open>if self.check_hit(address):\<close> performs.
\<close>

definition SetAssociativeCache_check_hit ::
  "SetAssociativeCache \<Rightarrow> int \<Rightarrow> error + (bool \<times> int)" where
  "SetAssociativeCache_check_hit c address =
     err_bind (get_set_index c address) (\<lambda>set_index.
     err_bind (get_tag c address) (\<lambda>tag.
     err_bind (py_index (cache_sets c) set_index) (\<lambda>s.
     Inr (CacheSet_check_hit s tag, level c))))"

definition tuple_truthy :: "'a \<times> 'b \<Rightarrow> bool" where
  "tuple_truthy t = True"

definition write_block ::
  "SetAssociativeCache \<Rightarrow> heap \<Rightarrow> int \<Rightarrow> pyval \<Rightarrow> (error + unit) \<times> SetAssociativeCache" where
  "write_block c h address block =
     (case block of
        PyDict r \<Rightarrow>
          if int (length (cells h r)) > block_size c then (Inl ValueError, c)
          else
            (case get_set_index c address of
               Inl e \<Rightarrow> (Inl e, c)
             | Inr set_index \<Rightarrow>
                 (case get_tag c address of
                    Inl e \<Rightarrow> (Inl e, c)
                  | Inr tag \<Rightarrow>
                      (case py_index (cache_sets c) set_index of
                         Inl e \<Rightarrow> (Inl e, c)
                       | Inr s \<Rightarrow>
                           (case CacheSet_add_or_update s h tag block of
                              (res, s') \<Rightarrow>
                                (res, c\<lparr> cache_sets := py_list_set (cache_sets c) set_index s' \<rparr>)))))
      | _ \<Rightarrow> (Inl ValueError, c))"

definition SetAssociativeCache_read_data ::
  "SetAssociativeCache \<Rightarrow> heap \<Rightarrow> int \<Rightarrow> error + pyval" where
  "SetAssociativeCache_read_data c h address =
     err_bind (SetAssociativeCache_check_hit c address) (\<lambda>hit.
     if tuple_truthy hit then
       err_bind (get_set_index c address) (\<lambda>set_index.
       err_bind (get_tag c address) (\<lambda>tag.
       err_bind (get_offset c address) (\<lambda>block_offset.
       err_bind (py_index (cache_sets c) set_index) (\<lambda>s.
       CacheSet_read_data s h tag block_offset))))
     else Inr PyNone)"

text \<open>
  \<open>write_data\<close> drops what \<open>CacheSet.write_data\<close> returns and itself returns None.
\<close>

definition SetAssociativeCache_write_data ::
  "SetAssociativeCache \<Rightarrow> heap \<Rightarrow> int \<Rightarrow> pyval \<Rightarrow> (error + unit) \<times> heap" where
  "SetAssociativeCache_write_data c h address data =
     (case get_set_index c address of
        Inl e \<Rightarrow> (Inl e, h)
      | Inr set_index \<Rightarrow>
          (case get_tag c address of
             Inl e \<Rightarrow> (Inl e, h)
           | Inr tag \<Rightarrow>
               (case get_offset c address of
                  Inl e \<Rightarrow> (Inl e, h)
                | Inr block_offset \<Rightarrow>
                    (case py_index (cache_sets c) set_index of
                       Inl e \<Rightarrow> (Inl e, h)
                     | Inr s \<Rightarrow> (Inr (), snd (CacheSet_write_data s h tag block_offset data))))))"

definition SetAssociativeCache_get_block :: "SetAssociativeCache \<Rightarrow> int \<Rightarrow> error + pyval" where
  "SetAssociativeCache_get_block c address =
     err_bind (get_set_index c address) (\<lambda>set_index.
     err_bind (get_tag c address) (\<lambda>tag.
     err_bind (py_index (cache_sets c) set_index) (\<lambda>s.
     Inr (CacheSet_get_block s tag))))"

subsection \<open>class CacheSystem\<close>

record CacheSystem =
  cache_levels :: "SetAssociativeCache list"
  sys_n_way :: int
  number_levels :: int
  levels_size :: "int list"
  sys_line_size :: int

text \<open>
  The list comprehension of the constructor and of \<open>reset_caches\<close>: level \<open>i + 1\<close> for the
  \<open>i\<close>-th size, each with the default block size 16 and type \<open>set_associative\<close>.
\<close>

fun build_levels :: "int \<Rightarrow> int list \<Rightarrow> int \<Rightarrow> int \<Rightarrow> error + SetAssociativeCache list" where
  "build_levels i [] line_size' n_way' = Inr []"
| "build_levels i (size' # sizes) line_size' n_way' =
     err_bind (SetAssociativeCache_init (i + 1) size' line_size' n_way' 16 ''set_associative'') (\<lambda>c.
     err_bind (build_levels (i + 1) sizes line_size' n_way') (\<lambda>cs.
     Inr (c # cs)))"

definition CacheSystem_init :: "int list option \<Rightarrow> int \<Rightarrow> int \<Rightarrow> int \<Rightarrow> error + CacheSystem" where
  "CacheSystem_init levels_size' levels line_size' n_way' =
     (let sizes = (case levels_size' of
                     None \<Rightarrow> [32 * 1024, 256 * 1024, 2 * 1024 * 1024]
                   | Some l \<Rightarrow> l)
      in err_bind (build_levels 0 sizes line_size' n_way') (\<lambda>cs.
         Inr \<lparr> cache_levels = cs, sys_n_way = n_way', number_levels = levels,
               levels_size = sizes, sys_line_size = line_size' \<rparr>))"

text \<open>\<open>CacheSystem()\<close> with every default.\<close>

definition CacheSystem_default :: "error + CacheSystem" where
  "CacheSystem_default = CacheSystem_init None 3 64 2"

definition reset_caches :: "CacheSystem \<Rightarrow> error + CacheSystem" where
  "reset_caches sys =
     err_bind (build_levels 0 (levels_size sys) (sys_line_size sys) (sys_n_way sys)) (\<lambda>cs.
     Inr (sys\<lparr> cache_levels := cs \<rparr>))"

definition configure_cache :: "CacheSystem \<Rightarrow> int \<Rightarrow> int \<Rightarrow> int \<Rightarrow> int \<Rightarrow> error + CacheSystem" where
  "configure_cache sys l1_size l2_size l3_size n_way' =
     reset_caches (sys\<lparr> levels_size := [l1_size, l2_size, l3_size], sys_n_way := n_way' \<rparr>)"

text \<open>
  \<open>check_hit\<close> returns \<open>(True, level)\<close> for the first level that holds the address,
  \<open>Some level\<close> here, and \<open>(None, None)\<close>, \<open>None\<close> here, when no level does.
\<close>

fun check_hit_levels :: "SetAssociativeCache list \<Rightarrow> int \<Rightarrow> error + int option" where
  "check_hit_levels [] address = Inr None"
| "check_hit_levels (cache # rest) address =
     err_bind (SetAssociativeCache_check_hit cache address) (\<lambda>(is_hit, levrl).
     if is_hit then Inr (Some levrl) else check_hit_levels rest address)"

definition CacheSystem_check_hit :: "CacheSystem \<Rightarrow> int \<Rightarrow> error + int option" where
  "CacheSystem_check_hit sys address = check_hit_levels (cache_levels sys) address"

text \<open>
  The loop \<open>for level in ...: level.write_data(address, data)\<close>, which is the body of
  \<open>CacheSystem.write_data\<close> over all levels and of the promotion in
  \<open>CacheSystem.read_data\<close> over the levels before the one that hit.
\<close>

fun write_levels ::
  "SetAssociativeCache list \<Rightarrow> heap \<Rightarrow> int \<Rightarrow> pyval \<Rightarrow> (error + unit) \<times> heap" where
  "write_levels [] h address data = (Inr (), h)"
| "write_levels (cache # rest) h address data =
     (case SetAssociativeCache_write_data cache h address data of
        (Inl e, h') \<Rightarrow> (Inl e, h')
      | (Inr _, h') \<Rightarrow> write_levels rest h' address data)"

definition CacheSystem_write_data ::
  "CacheSystem \<Rightarrow> heap \<Rightarrow> int \<Rightarrow> pyval \<Rightarrow> (error + unit) \<times> heap" where
  "CacheSystem_write_data sys h address data = write_levels (cache_levels sys) h address data"

text \<open>
  The loop of \<open>CacheSystem.read_data\<close>: \<open>upper\<close> holds the levels already probed, which
  are \<open>self.cache_levels[0 .. level - 1]\<close> when the level at hand returns a datum.
\<close>

fun read_levels ::
  "SetAssociativeCache list \<Rightarrow> SetAssociativeCache list \<Rightarrow> heap \<Rightarrow> int
     \<Rightarrow> (error + pyval) \<times> heap" where
  "read_levels upper [] h address = (Inr PyNone, h)"
| "read_levels upper (cache # rest) h address =
     (case SetAssociativeCache_read_data cache h address of
        Inl e \<Rightarrow> (Inl e, h)
      | Inr data \<Rightarrow>
          if data \<noteq> PyNone then
            (case write_levels upper h address data of
               (Inl e, h') \<Rightarrow> (Inl e, h')
             | (Inr _, h') \<Rightarrow> (Inr data, h'))
          else read_levels (upper @ [cache]) rest h address)"

definition CacheSystem_read_data :: "CacheSystem \<Rightarrow> heap \<Rightarrow> int \<Rightarrow> (error + pyval) \<times> heap" where
  "CacheSystem_read_data sys h address = read_levels [] (cache_levels sys) h address"

text \<open>\<open>load_block\<close>: \<open>done\<close> holds the levels already written, in order.\<close>

fun load_levels ::
  "SetAssociativeCache list \<Rightarrow> SetAssociativeCache list \<Rightarrow> heap \<Rightarrow> int \<Rightarrow> pyval
     \<Rightarrow> (error + unit) \<times> SetAssociativeCache list" where
  "load_levels done [] h address block = (Inr (), done)"
| "load_levels done (cache # rest) h address block =
     (case write_block cache h address block of
        (Inl e, cache') \<Rightarrow> (Inl e, done @ cache' # rest)
      | (Inr _, cache') \<Rightarrow> load_levels (done @ [cache']) rest h address block)"

definition load_block ::
  "CacheSystem \<Rightarrow> heap \<Rightarrow> int \<Rightarrow> pyval \<Rightarrow> (error + unit) \<times> CacheSystem" where
  "load_block sys h address block =
     (case load_levels [] (cache_levels sys) h address block of
        (res, cs) \<Rightarrow> (res, sys\<lparr> cache_levels := cs \<rparr>))"

section \<open>memory_management_unit.py\<close>

subsection \<open>class Memory\<close>

record Memory =
  size_byte :: int
  storage :: "int \<rightharpoonup> pyval"

definition Memory_init :: "int \<Rightarrow> Memory" where
  "Memory_init size_byte' = \<lparr> size_byte = size_byte', storage = Map.empty \<rparr>"

definition Memory_read :: "Memory \<Rightarrow> int \<Rightarrow> pyval" where
  "Memory_read m physical_address =
     (case storage m physical_address of None \<Rightarrow> PyNone | Some data \<Rightarrow> data)"

definition Memory_write :: "Memory \<Rightarrow> int \<Rightarrow> pyval \<Rightarrow> Memory" where
  "Memory_write m physical_address data = m\<lparr> storage := (storage m)(physical_address \<mapsto> data) \<rparr>"

text \<open>
  The dict comprehension of \<open>get_block\<close>: offset \<open>i\<close> holds the bytes of \<open>data\<close>
  followed by the byte \<open>i\<close>. \<open>bytes([i])\<close> raises ValueError from \<open>i = 256\<close> on.
\<close>

definition block_data :: "int \<Rightarrow> block" where
  "block_data block_size' =
     map (\<lambda>i. (int i, PyBytes ([100, 97, 116, 97] @ [i]))) [0 ..< nat block_size']"

text \<open>
  \<open>get_block\<close> builds a new dict object, stores it (the reference) at
  \<open>storage[address]\<close> and returns it. \<open>address % block_size\<close> raises on 0.
\<close>

definition Memory_get_block ::
  "Memory \<Rightarrow> heap \<Rightarrow> int \<Rightarrow> int \<Rightarrow> (error + pyval) \<times> Memory \<times> heap" where
  "Memory_get_block m h address block_size' =
     (if block_size' = 0 then (Inl ZeroDivisionError, m, h)
      else if block_size' > 256 then (Inl ValueError, m, h)
      else
        (case heap_alloc h (block_data block_size') of
           (r, h') \<Rightarrow> (Inr (PyDict r), m\<lparr> storage := (storage m)(address \<mapsto> PyDict r) \<rparr>, h')))"

definition Memory_write_data :: "Memory \<Rightarrow> int \<Rightarrow> pyval \<Rightarrow> Memory" where
  "Memory_write_data m address data = m\<lparr> storage := (storage m)(address \<mapsto> data) \<rparr>"

subsection \<open>class MMU\<close>

record MMU =
  tlb :: "int \<rightharpoonup> int"
  page_table :: PageTable
  cache_system :: CacheSystem
  memory :: Memory
  is_palt :: bool

definition MMU_init :: "PageTable \<Rightarrow> CacheSystem \<Rightarrow> Memory \<Rightarrow> (int \<rightharpoonup> int) option \<Rightarrow> MMU" where
  "MMU_init page_table' cache_system' memory' tlb' =
     \<lparr> tlb = (case tlb' of None \<Rightarrow> Map.empty | Some t \<Rightarrow> t),
       page_table = page_table', cache_system = cache_system', memory = memory',
       is_palt = False \<rparr>"

text \<open>
  \<open>handle_page_fault\<close> draws the physical page number with
  \<open>np.random.randint(0x1000, 0xFFFFF)\<close>. The drawn number is the parameter \<open>drawn\<close>
  of the model, so that every outcome of the draw is covered.
\<close>

definition handle_page_fault :: "MMU \<Rightarrow> int \<Rightarrow> int \<Rightarrow> int \<times> MMU" where
  "handle_page_fault m virtual_page_number drawn =
     (drawn, m\<lparr> page_table := add_entry (page_table m) virtual_page_number drawn \<rparr>)"

definition update_tlb :: "MMU \<Rightarrow> int \<Rightarrow> int \<Rightarrow> int \<times> MMU" where
  "update_tlb m virtual_address physical_address =
     (physical_address, m\<lparr> tlb := (tlb m)(virtual_address \<mapsto> physical_address) \<rparr>)"

text \<open>
  \<open>translate_address\<close>. The shift count \<open>(page_size - 1).bit_length()\<close> is never
  negative, so neither shift raises.
\<close>

definition translate_address :: "MMU \<Rightarrow> int \<Rightarrow> int \<Rightarrow> (error + int) \<times> MMU" where
  "translate_address m virtual_address drawn =
     (let m0 = m\<lparr> is_palt := False \<rparr> in
      case tlb m0 virtual_address of
        Some physical_address \<Rightarrow> (Inr physical_address, m0)
      | None \<Rightarrow>
          (let page_size' = page_size (page_table m0);
               offset = virtual_address AND (page_size' - 1);
               offset_bits' = bit_length (page_size' - 1);
               virtual_page_number = drop_bit (nat offset_bits') virtual_address;
               (physical_page_number, m1) =
                 (case get_physical_page_number (page_table m0) virtual_page_number of
                    None \<Rightarrow>
                      (case handle_page_fault (m0\<lparr> is_palt := True \<rparr>) virtual_page_number drawn of
                         (p, m') \<Rightarrow> (Some p, m'))
                  | Some p \<Rightarrow> (Some p, m0))
           in case physical_page_number of
                Some p \<Rightarrow>
                  (let physical_address = push_bit (nat offset_bits') p OR offset
                   in (Inr physical_address, snd (update_tlb m1 virtual_address physical_address)))
              | None \<Rightarrow> (Inl MemoryError, m1)))"

text \<open>
  The dict \<open>operation_result\<close> that \<open>process_virtual_address\<close> returns, with its four
  keys \<open>cache_hit\<close>, \<open>page_fault\<close>, \<open>physical_address\<close> and \<open>data\<close>.
\<close>

record operation_result =
  res_cache_hit :: pyval
  res_page_fault :: bool
  res_physical_address :: pyval
  res_data :: pyval

text \<open>
  The two steps that end every branch of \<open>process_virtual_address\<close>: the read, and the
  write to all cache levels followed by the write-through to main memory.
\<close>

definition finish_read ::
  "MMU \<Rightarrow> heap \<Rightarrow> int \<Rightarrow> operation_result \<Rightarrow> (error + operation_result) \<times> MMU \<times> heap" where
  "finish_read m h physical_address res =
     (case CacheSystem_read_data (cache_system m) h physical_address of
        (Inl e, h') \<Rightarrow> (Inl e, m, h')
      | (Inr d, h') \<Rightarrow> (Inr (res\<lparr> res_data := d \<rparr>), m, h'))"

definition finish_write ::
  "MMU \<Rightarrow> heap \<Rightarrow> int \<Rightarrow> pyval \<Rightarrow> operation_result
     \<Rightarrow> (error + operation_result) \<times> MMU \<times> heap" where
  "finish_write m h physical_address input_data res =
     (case CacheSystem_write_data (cache_system m) h physical_address input_data of
        (Inl e, h') \<Rightarrow> (Inl e, m, h')
      | (Inr _, h') \<Rightarrow>
          (Inr res, m\<lparr> memory := Memory_write_data (memory m) physical_address input_data \<rparr>, h'))"

text \<open>
  \<open>process_virtual_address\<close>. Only MemoryError is caught; any other exception leaves the
  function. \<open>input_data is None\<close> selects the read.
\<close>

definition process_virtual_address ::
  "MMU \<Rightarrow> heap \<Rightarrow> int \<Rightarrow> pyval \<Rightarrow> int \<Rightarrow> (error + operation_result) \<times> MMU \<times> heap" where
  "process_virtual_address m h virtual_address input_data drawn =
     (let res0 = \<lparr> res_cache_hit = PyBool False, res_page_fault = False,
                   res_physical_address = PyNone, res_data = PyNone \<rparr>
      in case translate_address m virtual_address drawn of
           (Inl e, m1) \<Rightarrow>
             if e = MemoryError then (Inr (res0\<lparr> res_page_fault := True \<rparr>), m1, h)
             else (Inl e, m1, h)
         | (Inr physical_address, m1) \<Rightarrow>
             (let res1 = res0\<lparr> res_page_fault := is_palt m1,
                               res_physical_address := PyInt physical_address \<rparr>
              in case CacheSystem_check_hit (cache_system m1) physical_address of
                   Inl e \<Rightarrow> (Inl e, m1, h)
                 | Inr (Some level') \<Rightarrow>
                     (let res2 = res1\<lparr> res_cache_hit := PyInt level' \<rparr>
                      in if input_data = PyNone then finish_read m1 h physical_address res2
                         else finish_write m1 h physical_address input_data res2)
                 | Inr None \<Rightarrow>
                     (let res2 = res1\<lparr> res_cache_hit := PyBool False \<rparr>
                      in case Memory_get_block (memory m1) h physical_address 16 of
                           (Inl e, mem', h') \<Rightarrow> (Inl e, m1\<lparr> memory := mem' \<rparr>, h')
                         | (Inr blk, mem', h') \<Rightarrow>
                             (case load_block (cache_system m1) h' physical_address blk of
                                (Inl e, sys') \<Rightarrow>
                                  (Inl e, m1\<lparr> memory := mem', cache_system := sys' \<rparr>, h')
                              | (Inr _, sys') \<Rightarrow>
                                  (let m2 = m1\<lparr> memory := mem', cache_system := sys' \<rparr>
                                   in if input_data = PyNone
                                      then finish_read m2 h' physical_address res2
                                      else finish_write m2 h' physical_address input_data res2)))))"

section \<open>TestNwaySetAssociativeCacheWithLRU.py\<close>

text \<open>
  The class \<open>SetAssociativeCache\<close> of the test file, named \<open>LRUCache\<close> here since the
  cache level of cache_system.py has the name. \<open>cache\<close> and \<open>usage_order\<close> hold one
  dict per set.
\<close>

record LRUCache =
  lru_n :: int
  lru_block_size :: int
  lru_num_sets :: int
  cache :: "(int \<times> bool) list list"
  usage_order :: "(int \<times> int) list list"

definition LRUCache_init :: "int \<Rightarrow> int \<Rightarrow> int \<Rightarrow> error + LRUCache" where
  "LRUCache_init cache_size block_size' n =
     (if block_size' * n = 0 then Inl ZeroDivisionError
      else
        (let num_sets' = cache_size div (block_size' * n)
         in Inr \<lparr> lru_n = n, lru_block_size = block_size', lru_num_sets = num_sets',
                  cache = replicate (nat num_sets') [],
                  usage_order = replicate (nat num_sets') [] \<rparr>))"

definition LRUCache_get_set_index :: "LRUCache \<Rightarrow> int \<Rightarrow> error + int" where
  "LRUCache_get_set_index c address =
     (let offset_bits' = bit_length (lru_block_size c) - 1;
          index_bits' = bit_length (lru_num_sets c) - 1
      in err_bind (py_rshift address offset_bits') (\<lambda>shifted.
         err_bind (py_lshift 1 index_bits') (\<lambda>bit.
         Inr (shifted AND (bit - 1)))))"

text \<open>\<open>max(d.values(), default=0)\<close>.\<close>

definition max_value :: "(int \<times> int) list \<Rightarrow> int" where
  "max_value d = (case map snd d of [] \<Rightarrow> 0 | v # vs \<Rightarrow> fold max vs v)"

text \<open>
  \<open>min(d, key=d.get)\<close>: the first key, in the dict's order, whose value is minimal;
  ValueError on an empty dict.
\<close>

fun first_min :: "(int \<times> int) \<Rightarrow> (int \<times> int) list \<Rightarrow> (int \<times> int)" where
  "first_min best [] = best"
| "first_min best (p # ps) = first_min (if snd p < snd best then p else best) ps"

definition min_key :: "(int \<times> int) list \<Rightarrow> error + int" where
  "min_key d = (case d of [] \<Rightarrow> Inl ValueError | p # ps \<Rightarrow> Inr (fst (first_min p ps)))"

text \<open>\<open>del d[k]\<close>: KeyError when the key is missing.\<close>

definition dict_del :: "('k \<times> 'v) list \<Rightarrow> 'k \<Rightarrow> error + ('k \<times> 'v) list" where
  "dict_del d k = (if contains d k then Inr (AList.delete k d) else Inl KeyError)"

text \<open>
  \<open>access_cache\<close>, with the subscripts in the order the source evaluates them:
  \<open>self.cache[set_index]\<close> for the membership test, \<open>self.usage_order[set_index]\<close>
  when the usage is first read, which on a miss with room is after the tag has been
  entered in the cache.
\<close>

definition access_cache :: "LRUCache \<Rightarrow> int \<Rightarrow> (error + bool) \<times> LRUCache" where
  "access_cache c address =
     (case err_bind (LRUCache_get_set_index c address) (\<lambda>set_index.
           err_bind (py_rshift address (bit_length set_index + bit_length (lru_block_size c) - 1)) (\<lambda>tag.
           err_bind (py_index (cache c) set_index) (\<lambda>cs.
           Inr (set_index, tag, cs)))) of
        Inl e \<Rightarrow> (Inl e, c)
      | Inr (set_index, tag, cs) \<Rightarrow>
          if contains cs tag then
            (case py_index (usage_order c) set_index of
               Inl e \<Rightarrow> (Inl e, c)
             | Inr us \<Rightarrow>
                 (Inr True,
                  c\<lparr> usage_order :=
                       py_list_set (usage_order c) set_index
                         (AList.update tag (max_value us + 1) us) \<rparr>))
          else if int (length cs) < lru_n c then
            (case py_index (usage_order c) set_index of
               Inl e \<Rightarrow>
                 (Inl e, c\<lparr> cache := py_list_set (cache c) set_index (AList.update tag True cs) \<rparr>)
             | Inr us \<Rightarrow>
                 (Inr False,
                  c\<lparr> cache := py_list_set (cache c) set_index (AList.update tag True cs),
                     usage_order :=
                       py_list_set (usage_order c) set_index
                         (AList.update tag (max_value us + 1) us) \<rparr>))
          else
            (case err_bind (py_index (usage_order c) set_index) (\<lambda>us.
                  err_bind (min_key us) (\<lambda>lru_tag.
                  err_bind (dict_del cs lru_tag) (\<lambda>cs1.
                  Inr (us, lru_tag, cs1)))) of
               Inl e \<Rightarrow> (Inl e, c)
             | Inr (us, lru_tag, cs1) \<Rightarrow>
                 (case dict_del us lru_tag of
                    Inl e \<Rightarrow> (Inl e, c\<lparr> cache := py_list_set (cache c) set_index cs1 \<rparr>)
                  | Inr us1 \<Rightarrow>
                      (Inr False,
                       c\<lparr> cache := py_list_set (cache c) set_index (AList.update tag True cs1),
                          usage_order :=
                            py_list_set (usage_order c) set_index
                              (AList.update tag (max_value us1 + 1) us1) \<rparr>))))"

text \<open>\<open>test_lru_effectiveness\<close>: the hit/miss vector of a run of accesses.\<close>

fun access_all :: "LRUCache \<Rightarrow> int list \<Rightarrow> (error + bool list) \<times> LRUCache" where
  "access_all c [] = (Inr [], c)"
| "access_all c (addr # addrs) =
     (case access_cache c addr of
        (Inl e, c') \<Rightarrow> (Inl e, c')
      | (Inr b, c') \<Rightarrow>
          (case access_all c' addrs of
             (Inl e, c'') \<Rightarrow> (Inl e, c'')
           | (Inr bs, c'') \<Rightarrow> (Inr (b # bs), c'')))"

section \<open>Runs of operations and concrete scenarios\<close>

text \<open>
  A run of \<open>add_or_update\<close> calls on one set. Each call comes with the heap it runs in
  (blocks may have been written between two calls); a call that raises leaves the set as
  the exception found it, and the run goes on with the next call.
\<close>

fun put_all :: "CacheSet \<Rightarrow> (heap \<times> int \<times> pyval) list \<Rightarrow> CacheSet" where
  "put_all s [] = s"
| "put_all s ((h, tag, block) # ops) = put_all (snd (CacheSet_add_or_update s h tag block)) ops"

text \<open>
  The system of the demonstration: \<open>CacheSystem()\<close> with its defaults, a page table of
  4 KiB pages without entries, a memory, and the MMU over them. \<open>default_L1\<close> is the
  first level of that cache system.
\<close>

definition default_system :: CacheSystem where
  "default_system = projr CacheSystem_default"

definition default_L1 :: SetAssociativeCache where
  "default_L1 = hd (cache_levels default_system)"

definition fresh_mmu :: MMU where
  "fresh_mmu = MMU_init (PageTable_init 4) default_system (Memory_init (1024 * 1024 * 1024)) None"

text \<open>
  A read through \<open>process_virtual_address\<close>, keeping the state it leaves, and the state
  after the reads of the virtual addresses 0x0000, 0x1000 and 0x2000 on the fresh MMU,
  where the three page faults draw the physical pages 0x1000, 0x1001 and 0x1002.
\<close>

definition read_va :: "MMU \<times> heap \<Rightarrow> int \<Rightarrow> int \<Rightarrow> MMU \<times> heap" where
  "read_va st virtual_address drawn =
     snd (process_virtual_address (fst st) (snd st) virtual_address PyNone drawn)"

definition three_reads :: "MMU \<times> heap" where
  "three_reads =
     read_va (read_va (read_va (fresh_mmu, heap_empty) 0 0x1000) 0x1000 0x1001) 0x2000 0x1002"



section \<open>Properties\<close>

subsection \<open>Page table\<close>

text \<open>
  C8. For every virtual page number absent from the page table, \<open>update_entry\<close> fails
  with KeyError (the NoSuchMapping failure) and the page table after the failing call is
  the page table before it: no entry is added or modified.
\<close>

theorem update_entry_absent:
  assumes "pt_entries pt vpn = None"
  shows "update_entry pt vpn ppn = (Inl KeyError, pt)"
  using assms by (simp add: update_entry_def dom_def)

theorem update_entry_absent_witness:
  "pt_entries (add_entry (PageTable_init 4) 1 160) 2 = None
   \<and> update_entry (add_entry (PageTable_init 4) 1 160) 2 176
       = (Inl KeyError, add_entry (PageTable_init 4) 1 160)"
proof -
  have h: "pt_entries (add_entry (PageTable_init 4) 1 160) 2 = None"
    by (simp add: add_entry_def PageTable_init_def)
  show ?thesis using h update_entry_absent [OF h, of 176] by simp
qed

subsection \<open>Cache sets\<close>

lemma update_length_present:
  "map_of es k \<noteq> None \<Longrightarrow> length (AList.update k v es) = length es"
  by (induction es) auto

lemma filter_key_shorter:
  "map_of es k \<noteq> None \<Longrightarrow> length (filter (\<lambda>p. fst p \<noteq> k) es) < length es"
proof -
  assume "map_of es k \<noteq> None"
  then obtain v where "(k, v) \<in> set es" by (auto dest: map_of_SomeD)
  then show ?thesis by (intro length_filter_less[where x="(k, v)"]) auto
qed

lemma add_or_update_n_way:
  "set_n_way (snd (CacheSet_add_or_update s h tag block)) = set_n_way s"
  by (auto simp: CacheSet_add_or_update_def move_to_end_def split: pyval.splits option.splits list.splits)

lemma add_or_update_capacity:
  assumes "int (length (entries s)) \<le> set_n_way s"
  shows "int (length (entries (snd (CacheSet_add_or_update s h tag block)))) \<le> set_n_way s"
proof (cases block)
  case (PyDict r)
  show ?thesis
  proof (cases "contains (entries s) tag")
    case True
    then have present: "map_of (AList.update tag r (entries s)) tag \<noteq> None"
      by (simp add: update_conv')
    have "length (filter (\<lambda>p. fst p \<noteq> tag) (AList.update tag r (entries s)))
            < length (AList.update tag r (entries s))"
      using present by (rule filter_key_shorter)
    also have "\<dots> = length (entries s)"
      using True by (simp add: contains_def update_length_present)
    finally show ?thesis
      using assms True PyDict
      by (auto simp: CacheSet_add_or_update_def move_to_end_def update_conv')
  next
    case False
    then show ?thesis
      using assms PyDict
      by (auto simp: CacheSet_add_or_update_def split: list.splits)
  qed
qed (use assms in \<open>simp_all add: CacheSet_add_or_update_def\<close>)

lemma put_all_capacity:
  "int (length (entries s)) \<le> set_n_way s \<Longrightarrow>
   int (length (entries (put_all s ops))) \<le> set_n_way s \<and> set_n_way (put_all s ops) = set_n_way s"
proof (induction ops arbitrary: s)
  case Nil
  then show ?case by simp
next
  case (Cons op ops)
  obtain h tag block where op: "op = (h, tag, block)" by (cases op)
  let ?s' = "snd (CacheSet_add_or_update s h tag block)"
  have "int (length (entries ?s')) \<le> set_n_way ?s'"
    using add_or_update_capacity[OF Cons.prems] by (simp add: add_or_update_n_way)
  from Cons.IH[OF this] show ?case by (simp add: op add_or_update_n_way)
qed

text \<open>
  C6. A set built with associativity \<open>n \<ge> 1\<close> holds at most \<open>n\<close> entries after every
  call of any run of \<open>add_or_update\<close> calls, whatever the tags and blocks, and whether a
  call returns or raises.
\<close>

theorem set_capacity_invariant:
  assumes "1 \<le> n"
  shows "\<forall>k \<le> length ops. int (length (entries (put_all (CacheSet_init n bs) (take k ops)))) \<le> n"
proof (intro allI impI)
  fix k
  have "int (length (entries (CacheSet_init n bs))) \<le> set_n_way (CacheSet_init n bs)"
    using assms by (simp add: CacheSet_init_def)
  from put_all_capacity[OF this, of "take k ops"]
  show "int (length (entries (put_all (CacheSet_init n bs) (take k ops)))) \<le> n"
    by (simp add: CacheSet_init_def)
qed

theorem set_capacity_invariant_witness:
  "(1::int) \<le> 2 \<and> (3::nat) \<le> length
       [(snd (heap_alloc heap_empty (block_data 16)), 1, PyDict 0),
        (snd (heap_alloc heap_empty (block_data 16)), 2, PyDict 0),
        (snd (heap_alloc heap_empty (block_data 16)), 3::int, PyDict 0)]
   \<and> int (length (entries (put_all (CacheSet_init 2 16) (take 3
       [(snd (heap_alloc heap_empty (block_data 16)), 1, PyDict 0),
        (snd (heap_alloc heap_empty (block_data 16)), 2, PyDict 0),
        (snd (heap_alloc heap_empty (block_data 16)), 3, PyDict 0)])))) \<le> 2"
proof -
  have h: "(1::int) \<le> 2" by simp
  show ?thesis
    using set_capacity_invariant [OF h, of
       "[(snd (heap_alloc heap_empty (block_data 16)), 1, PyDict 0),
         (snd (heap_alloc heap_empty (block_data 16)), 2, PyDict 0),
         (snd (heap_alloc heap_empty (block_data 16)), 3, PyDict 0)]" 16, THEN spec, of 3]
    by simp
qed

subsection \<open>Address translation\<close>

text \<open>
  C7. For every state of the MMU, every virtual address and every outcome of the two
  draws: \<open>translate_address\<close> returns a physical address, enters it in the TLB, and the
  same call made again at once returns the same physical address with the page-fault flag
  off and the page table as the first call left it.
\<close>

theorem translate_address_twice:
  "\<exists>pa. fst (translate_address m va d1) = Inr pa
       \<and> tlb (snd (translate_address m va d1)) va = Some pa
       \<and> fst (translate_address (snd (translate_address m va d1)) va d2) = Inr pa
       \<and> \<not> is_palt (snd (translate_address (snd (translate_address m va d1)) va d2))
       \<and> page_table (snd (translate_address (snd (translate_address m va d1)) va d2))
           = page_table (snd (translate_address m va d1))"
proof (cases "tlb m va")
  case (Some pa)
  then show ?thesis by (simp add: translate_address_def)
next
  case None
  show ?thesis
  proof (cases "get_physical_page_number (page_table m) (drop_bit (nat (bit_length (page_size (page_table m) - 1))) va)")
    case None': None
    show ?thesis
      using None None'
      by (simp add: translate_address_def Let_def handle_page_fault_def update_tlb_def)
  next
    case (Some p)
    show ?thesis
      using None Some
      by (simp add: translate_address_def Let_def update_tlb_def)
  qed
qed

subsection \<open>Backing memory\<close>

lemma length_block_data: "length (block_data 16) = 16"
  by (simp add: block_data_def)

text \<open>
  C10. \<open>get_block(a)\<close> after \<open>write_data(a, d)\<close> does not return \<open>d\<close>: whatever the
  store holds, it returns a new dict object of 16 entries (offset \<open>i\<close> holding
  \<open>data\<close> followed by the byte \<open>i\<close>) and puts that object at \<open>storage[a]\<close> in place of
  \<open>d\<close>. The datum \<open>d\<close> is any value that exists before the call, that is, not a
  reference the heap has not handed out yet.
\<close>

theorem get_block_after_write_data:
  assumes "value_exists h d"
  shows "\<exists>m' h'. Memory_get_block (Memory_write_data m a d) h a 16
                    = (Inr (PyDict (next_ref h)), m', h')
          \<and> PyDict (next_ref h) \<noteq> d
          \<and> fst (Memory_get_block m2 h a 16) = Inr (PyDict (next_ref h))
          \<and> cells h' (next_ref h) = block_data 16
          \<and> length (cells h' (next_ref h)) = 16
          \<and> Memory_read (Memory_write_data m a d) a = d
          \<and> Memory_read m' a = PyDict (next_ref h)
          \<and> Memory_read m' a \<noteq> d"
  using assms
  by (auto simp: value_exists_def Memory_get_block_def Memory_write_data_def Memory_read_def heap_alloc_def
      length_block_data)

theorem get_block_after_write_data_witness:
  "value_exists heap_empty (PyStr ''x'')
   \<and> fst (Memory_get_block (Memory_write_data (Memory_init 1024) 5 (PyStr ''x'')) heap_empty 5 16)
       = Inr (PyDict 0)
   \<and> PyDict 0 \<noteq> PyStr ''x''"
proof -
  have h: "value_exists heap_empty (PyStr ''x'')" by (simp add: value_exists_def)
  show ?thesis
    using h get_block_after_write_data [OF h, of "Memory_init 1024" 5 "Memory_init 1024"]
    by (auto simp: heap_empty_def)
qed

subsection \<open>Cache levels: what a reported miss or hit means\<close>

lemma err_bind_Inr_iff:
  "err_bind m f = Inr y \<longleftrightarrow> (\<exists>x. m = Inr x \<and> f x = Inr y)"
  by (cases m) (simp_all add: err_bind_def)

lemma check_hit_Inr:
  assumes "SetAssociativeCache_check_hit c a = Inr (b, l)"
  obtains i t s where "get_set_index c a = Inr i" and "get_tag c a = Inr t"
    and "py_index (cache_sets c) i = Inr s" and "b = contains (entries s) t" and "l = level c"
  using assms
  by (auto simp: SetAssociativeCache_check_hit_def err_bind_Inr_iff CacheSet_check_hit_def)

lemma level_read_miss:
  assumes "SetAssociativeCache_check_hit c a = Inr (False, l)" and "block_size c \<noteq> 0"
  shows "SetAssociativeCache_read_data c h a = Inl KeyError"
proof -
  from assms(1) obtain i t s where
    "get_set_index c a = Inr i" "get_tag c a = Inr t" "py_index (cache_sets c) i = Inr s"
    "\<not> contains (entries s) t"
    by (rule check_hit_Inr) simp
  then show ?thesis
    using assms
    by (simp add: SetAssociativeCache_read_data_def err_bind_def tuple_truthy_def get_offset_def
        CacheSet_read_data_def contains_def)
qed


lemma level_write_miss:
  assumes "SetAssociativeCache_check_hit c a = Inr (False, l)" and "block_size c \<noteq> 0"
  shows "SetAssociativeCache_write_data c h a d = (Inr (), h)"
proof -
  from assms(1) obtain i t s where
    "get_set_index c a = Inr i" "get_tag c a = Inr t" "py_index (cache_sets c) i = Inr s"
    "\<not> contains (entries s) t"
    by (rule check_hit_Inr) simp
  then show ?thesis
    using assms
    by (simp add: SetAssociativeCache_write_data_def get_offset_def CacheSet_write_data_def
        contains_def)
qed

subsection \<open>Writing one element of a block\<close>


text \<open>
  C9, as the code has it. \<open>CacheSet.write_data\<close> on an absent tag raises nothing: it
  returns False and changes neither the set nor any block, and
  \<open>SetAssociativeCache.write_data\<close> drops that False and returns normally, so that the
  write is lost without a sign. On a present tag it returns None and changes exactly the
  element at the offset of the dict object stored under the tag: that object maps the
  offset to the datum and every other offset as before, and no other object changes.
\<close>

theorem write_data_absent_present:
  "(map_of (entries s) tag = None \<longrightarrow>
      CacheSet_write_data s h tag off d = (PyBool False, h))
   \<and> (SetAssociativeCache_check_hit c a = Inr (False, l) \<and> block_size c \<noteq> 0 \<longrightarrow>
      SetAssociativeCache_write_data c h a d = (Inr (), h))
   \<and> (\<forall>r. map_of (entries s) tag = Some r \<longrightarrow>
        fst (CacheSet_write_data s h tag off d) = PyNone
        \<and> map_of (cells (snd (CacheSet_write_data s h tag off d)) r)
            = (map_of (cells h r))(off \<mapsto> d)
        \<and> (\<forall>r'. r' \<noteq> r \<longrightarrow> cells (snd (CacheSet_write_data s h tag off d)) r' = cells h r')
        \<and> next_ref (snd (CacheSet_write_data s h tag off d)) = next_ref h)"
  by (auto simp: CacheSet_write_data_def update_conv' level_write_miss)

subsection \<open>Write-through\<close>







subsection \<open>Evaluating the concrete scenarios\<close>

lemmas eval_defs =
  SetAssociativeCache_init_def get_set_index_def get_tag_def get_offset_def
  SetAssociativeCache_check_hit_def SetAssociativeCache_read_data_def
  SetAssociativeCache_write_data_def write_block_def py_index_def py_list_set_def
  py_position_def
  py_rshift_def py_lshift_def err_bind_def tuple_truthy_def
  CacheSet_init_def CacheSet_check_hit_def CacheSet_read_data_def CacheSet_write_data_def
  CacheSet_add_or_update_def contains_def dict_get_def move_to_end_def
  bit_length_def bit_length_nat.simps
  MMU_init_def PageTable_init_def Memory_init_def process_virtual_address_def
  translate_address_def handle_page_fault_def update_tlb_def get_physical_page_number_def
  add_entry_def CacheSystem_check_hit_def CacheSystem_read_data_def CacheSystem_write_data_def
  load_block_def finish_read_def finish_write_def Memory_get_block_def Memory_write_data_def
  Memory_read_def heap_alloc_def heap_empty_def Let_def

lemma CacheSystem_default_eq:
  "CacheSystem_default = Inr \<lparr> cache_levels =
      [\<lparr> n_way = 2, line_size = 64, num_sets = 256, block_size = 16,
          cache_sets = replicate 256 (CacheSet_init 2 16), cache_type = ''set_associative'',
          offset_bits = 4, index_bits = 8, level = 1 \<rparr>,
       \<lparr> n_way = 2, line_size = 64, num_sets = 2048, block_size = 16,
          cache_sets = replicate 2048 (CacheSet_init 2 16), cache_type = ''set_associative'',
          offset_bits = 4, index_bits = 11, level = 2 \<rparr>,
       \<lparr> n_way = 2, line_size = 64, num_sets = 16384, block_size = 16,
          cache_sets = replicate 16384 (CacheSet_init 2 16), cache_type = ''set_associative'',
          offset_bits = 4, index_bits = 14, level = 3 \<rparr>],
      sys_n_way = 2, number_levels = 3, levels_size = [32768, 262144, 2097152],
      sys_line_size = 64 \<rparr>"
  by (simp add: CacheSystem_default_def CacheSystem_init_def SetAssociativeCache_init_def
      err_bind_def bit_length_def bit_length_nat.simps)

lemma block_data_0: "map_of (block_data 16) 0 = Some (PyBytes [100, 97, 116, 97, 0])"
  by (simp add: block_data_def upt_conv_Cons)

lemmas scenario_defs = three_reads_def read_va_def fresh_mmu_def default_system_def
  default_L1_def CacheSystem_default_eq eval_defs block_data_0 length_block_data

subsection \<open>Reads that miss\<close>

text \<open>
  C1. The claim holds of the code's intent and fails on the code: \<open>read_data\<close> of a
  level tests the pair that \<open>check_hit\<close> returns, which is always true, and then reads
  \<open>self.entries[tag]\<close>. On the cache system as constructed, where no level holds any
  address, reading address 0 raises KeyError: from the set, from the first level and
  from the whole hierarchy, although \<open>check_hit\<close> reports the miss.
\<close>

theorem read_data_miss_raises:
  "CacheSystem_default = Inr default_system
   \<and> CacheSystem_check_hit default_system 0 = Inr None
   \<and> CacheSystem_read_data default_system heap_empty 0 = (Inl KeyError, heap_empty)
   \<and> SetAssociativeCache_check_hit default_L1 0 = Inr (False, 1)
   \<and> SetAssociativeCache_read_data default_L1 heap_empty 0 = Inl KeyError
   \<and> CacheSet_read_data (CacheSet_init 2 16) heap_empty 0 0 = Inl KeyError"
  by (simp add: scenario_defs)

text \<open>The state after the three reads, spelled out.\<close>

lemma three_reads_eq:
  "three_reads =
     (\<lparr> tlb = [0 \<mapsto> 16777216, 4096 \<mapsto> 16781312, 8192 \<mapsto> 16785408],
        page_table =
          \<lparr> pt_entries = [0 \<mapsto> 4096, 1 \<mapsto> 4097, 2 \<mapsto> 4098], PAGE_SIZE_KiB = 4,
            page_size = 4096 \<rparr>,
        cache_system =
          \<lparr> cache_levels =
              [\<lparr> n_way = 2, line_size = 64, num_sets = 256, block_size = 16,
                 cache_sets =
                   (replicate 256 \<lparr> entries = [], set_n_way = 2, set_block_size = 16 \<rparr>)
                   [0 := \<lparr> entries = [(1048832, Suc 0), (1049088, Suc (Suc 0))],
                           set_n_way = 2, set_block_size = 16 \<rparr>],
                 cache_type = ''set_associative'', offset_bits = 4, index_bits = 8,
                 level = 1 \<rparr>,
               \<lparr> n_way = 2, line_size = 64, num_sets = 2048, block_size = 16,
                 cache_sets =
                   (replicate 2048 \<lparr> entries = [], set_n_way = 2, set_block_size = 16 \<rparr>)
                   [0 := \<lparr> entries = [(1048576, 0)], set_n_way = 2, set_block_size = 16 \<rparr>,
                    256 := \<lparr> entries = [(2048, Suc 0)], set_n_way = 2, set_block_size = 16 \<rparr>,
                    512 := \<lparr> entries = [(1024, Suc (Suc 0))], set_n_way = 2,
                             set_block_size = 16 \<rparr>],
                 cache_type = ''set_associative'', offset_bits = 4, index_bits = 11,
                 level = 2 \<rparr>,
               \<lparr> n_way = 2, line_size = 64, num_sets = 16384, block_size = 16,
                 cache_sets =
                   (replicate 16384 \<lparr> entries = [], set_n_way = 2, set_block_size = 16 \<rparr>)
                   [0 := \<lparr> entries = [(1048576, 0)], set_n_way = 2, set_block_size = 16 \<rparr>,
                    256 := \<lparr> entries = [(2048, Suc 0)], set_n_way = 2, set_block_size = 16 \<rparr>,
                    512 := \<lparr> entries = [(1024, Suc (Suc 0))], set_n_way = 2,
                             set_block_size = 16 \<rparr>],
                 cache_type = ''set_associative'', offset_bits = 4, index_bits = 14,
                 level = 3 \<rparr>],
            sys_n_way = 2, number_levels = 3, levels_size = [32768, 262144, 2097152],
            sys_line_size = 64 \<rparr>,
        memory =
          \<lparr> size_byte = 1073741824,
            storage = [16777216 \<mapsto> PyDict 0, 16781312 \<mapsto> PyDict (Suc 0),
                       16785408 \<mapsto> PyDict (Suc (Suc 0))] \<rparr>,
        is_palt = True \<rparr>,
      \<lparr> cells = (\<lambda>_. [])(0 := block_data 16, Suc 0 := block_data 16,
                            Suc (Suc 0) := block_data 16),
        next_ref = Suc (Suc (Suc 0)) \<rparr>)"
  by (simp add: scenario_defs update_conv')

lemmas after_reads_defs = three_reads_eq read_va_def eval_defs block_data_0 length_block_data
  update_conv'

subsection \<open>Reads that hit below the first level\<close>

text \<open>
  C3. The claim holds of the code's intent and fails on the code. After the reads of the
  virtual addresses 0x0000, 0x1000 and 0x2000 on the fresh MMU, the block of physical
  address 0x1000000 (virtual address 0) has been evicted from level 1 and is held by
  levels 2 and 3, so \<open>check_hit\<close> reports a hit at level 2. The read of the hierarchy
  then raises KeyError at level 1 before it reaches level 2, \<open>process_virtual_address\<close>
  lets the exception through, nothing is promoted, and level 1 still misses afterwards.
\<close>

theorem read_hit_at_level_2_raises:
  "tlb (fst three_reads) 0 = Some 0x1000000
   \<and> CacheSystem_check_hit (cache_system (fst three_reads)) 0x1000000 = Inr (Some 2)
   \<and> SetAssociativeCache_check_hit (hd (cache_levels (cache_system (fst three_reads)))) 0x1000000
       = Inr (False, 1)
   \<and> CacheSystem_read_data (cache_system (fst three_reads)) (snd three_reads) 0x1000000
       = (Inl KeyError, snd three_reads)
   \<and> fst (process_virtual_address (fst three_reads) (snd three_reads) 0 PyNone 0x1003)
       = Inl KeyError
   \<and> SetAssociativeCache_check_hit
         (hd (cache_levels (cache_system (fst (read_va three_reads 0 0x1003))))) 0x1000000
       = Inr (False, 1)"
  by (simp add: after_reads_defs)

subsection \<open>Writes that find a level without the block\<close>


subsection \<open>Writes to an absent tag\<close>

text \<open>
  C9 fails as stated: the write to a tag that the set does not hold raises nothing.
  \<open>CacheSet.write_data\<close> returns False with the heap unchanged, and the level's
  \<open>write_data\<close> returns normally with the heap unchanged.
\<close>

theorem write_data_absent_counterexample:
  "\<not> CacheSet_check_hit (CacheSet_init 2 16) 5
   \<and> CacheSet_write_data (CacheSet_init 2 16) heap_empty 5 0 (PyStr ''x'')
       = (PyBool False, heap_empty)
   \<and> SetAssociativeCache_check_hit default_L1 0 = Inr (False, 1)
   \<and> SetAssociativeCache_write_data default_L1 heap_empty 0 (PyStr ''x'')
       = (Inr (), heap_empty)"
  by (simp add: scenario_defs)

theorem write_data_absent_present_witness:
  "map_of (entries (CacheSet_init 2 16)) 5 = None
   \<and> CacheSet_write_data (CacheSet_init 2 16) heap_empty 5 3 (PyStr ''x'')
       = (PyBool False, heap_empty)
   \<and> SetAssociativeCache_check_hit default_L1 0 = Inr (False, 1)
   \<and> block_size default_L1 \<noteq> 0
   \<and> SetAssociativeCache_write_data default_L1 heap_empty 0 (PyStr ''x'') = (Inr (), heap_empty)
   \<and> map_of (entries (snd (CacheSet_add_or_update (CacheSet_init 2 16)
                              (snd (heap_alloc heap_empty (block_data 16))) 5 (PyDict 0)))) 5
       = Some 0
   \<and> fst (CacheSet_write_data
            (snd (CacheSet_add_or_update (CacheSet_init 2 16)
                    (snd (heap_alloc heap_empty (block_data 16))) 5 (PyDict 0)))
            (snd (heap_alloc heap_empty (block_data 16))) 5 3 (PyStr ''x'')) = PyNone
   \<and> map_of (cells (snd (CacheSet_write_data
            (snd (CacheSet_add_or_update (CacheSet_init 2 16)
                    (snd (heap_alloc heap_empty (block_data 16))) 5 (PyDict 0)))
            (snd (heap_alloc heap_empty (block_data 16))) 5 3 (PyStr ''x''))) 0)
       = (map_of (cells (snd (heap_alloc heap_empty (block_data 16))) 0))(3 \<mapsto> PyStr ''x'')"
proof -
  have absent: "map_of (entries (CacheSet_init 2 16)) 5 = None"
    by (simp add: CacheSet_init_def)
  have miss: "SetAssociativeCache_check_hit default_L1 0 = Inr (False, 1)"
    and bs: "block_size default_L1 \<noteq> 0"
    by (simp_all add: scenario_defs)
  have present: "map_of (entries (snd (CacheSet_add_or_update (CacheSet_init 2 16)
                   (snd (heap_alloc heap_empty (block_data 16))) 5 (PyDict 0)))) 5 = Some 0"
    by (simp add: scenario_defs)
  from write_data_absent_present
         [of "CacheSet_init 2 16" 5 heap_empty 3 "PyStr ''x''" default_L1 0 1]
       write_data_absent_present
         [of "snd (CacheSet_add_or_update (CacheSet_init 2 16)
                 (snd (heap_alloc heap_empty (block_data 16))) 5 (PyDict 0))" 5
             "snd (heap_alloc heap_empty (block_data 16))" 3 "PyStr ''x''" default_L1 0 1]
       absent miss bs present
  show ?thesis by blast
qed

subsection \<open>Address decomposition\<close>

lemma bit_length_nat_pow2: "bit_length_nat (2 ^ k) = Suc k"
proof (induction k)
  case 0
  show ?case by (simp add: bit_length_nat.simps)
next
  case (Suc k)
  have "bit_length_nat (2 ^ Suc k) = Suc (bit_length_nat (2 ^ Suc k div 2))"
    by (subst bit_length_nat.simps) simp
  with Suc show ?case by simp
qed

lemma bit_length_pow2: "bit_length (2 ^ k) = int k + 1"
  by (simp add: bit_length_def nat_power_eq bit_length_nat_pow2)

lemma bit_length_nonneg: "0 \<le> bit_length k"
  by (simp add: bit_length_def)

lemma and_low_bits: "(x::int) AND (2 ^ s - 1) = x mod 2 ^ s"
proof -
  have "x AND mask s = take_bit s x" by (simp add: take_bit_eq_mask)
  then show ?thesis by (simp add: mask_eq_exp_minus_1 take_bit_eq_mod)
qed

text \<open>
  C5, as the code has it. For a level built with block size \<open>B = 2 ^ b\<close> whose set count
  is \<open>S = 2 ^ s\<close>: direct-mapped and set-associative levels have
  \<open>index = (A >> b) mod S\<close> and \<open>tag = A >> (b + bit_length(index))\<close>, where the
  shift depends on the value of the index and not on \<open>log2(S)\<close>; a fully associative
  level has index 0 and \<open>tag = A div line_size\<close>, the line size and not the block size.
\<close>

theorem address_decomposition:
  assumes "SetAssociativeCache_init lvl sz ls nw (2 ^ b) ct = Inr c"
    and "num_sets c = 2 ^ s"
  shows "(ct = ''direct_mapped'' \<or> ct = ''set_associative'' \<longrightarrow>
            get_set_index c A = Inr (drop_bit b A mod 2 ^ s)
          \<and> get_tag c A
              = Inr (drop_bit (b + nat (bit_length (drop_bit b A mod 2 ^ s))) A))
       \<and> (ct = ''fully_associative'' \<and> ls \<noteq> 0 \<longrightarrow>
            get_set_index c A = Inr 0 \<and> get_tag c A = Inr (A div ls))"
proof -
  from assms(1) obtain ns where c: "c = \<lparr> n_way = nw, line_size = ls, num_sets = ns,
      block_size = 2 ^ b, cache_sets = replicate (nat ns) (CacheSet_init nw (2 ^ b)),
      cache_type = ct, offset_bits = bit_length (2 ^ b) - 1, index_bits = bit_length ns - 1,
      level = lvl \<rparr>"
    by (auto simp: SetAssociativeCache_init_def err_bind_def split: if_splits)
  with assms(2) have ns: "ns = 2 ^ s" by simp
  have ob: "offset_bits c = int b" and ib: "index_bits c = int s"
    and bs: "block_size c = 2 ^ b" and ty: "cache_type c = ct" and lsz: "line_size c = ls"
    by (simp_all add: c ns bit_length_pow2)
  let ?i = "drop_bit b A mod 2 ^ s"
  have idx: "get_set_index c A = Inr ?i"
    if "ct = ''direct_mapped'' \<or> ct = ''set_associative''"
  proof -
    have "cache_type c \<in> set [''direct_mapped'', ''set_associative'']"
      using that by (auto simp: ty)
    then show ?thesis
      by (simp add: get_set_index_def ob ib py_rshift_def py_lshift_def err_bind_def
          push_bit_of_1 and_low_bits)
  qed
  have tag: "get_tag c A = Inr (drop_bit (b + nat (bit_length ?i)) A)"
    if "ct = ''direct_mapped'' \<or> ct = ''set_associative''"
  proof -
    have nf: "cache_type c \<noteq> ''fully_associative''" using that by (auto simp: ty)
    have cnt: "nat (bit_length ?i + bit_length (2 ^ b) - 1) = b + nat (bit_length ?i)"
      using bit_length_nonneg[of ?i] by (simp add: bit_length_pow2)
    have nonneg: "\<not> bit_length ?i + bit_length (2 ^ b) - 1 < 0"
      using bit_length_nonneg[of ?i] by (simp add: bit_length_pow2)
    have "get_tag c A = py_rshift A (bit_length ?i + bit_length (2 ^ b) - 1)"
      using nf by (simp add: get_tag_def bs idx[OF that] err_bind_def)
    also have "\<dots> = Inr (drop_bit (nat (bit_length ?i + bit_length (2 ^ b) - 1)) A)"
      using nonneg by (simp add: py_rshift_def)
    finally show ?thesis by (simp only: cnt)
  qed
  have full: "get_set_index c A = Inr 0 \<and> get_tag c A = Inr (A div ls)"
    if "ct = ''fully_associative''" "ls \<noteq> 0"
    using that by (simp add: get_set_index_def get_tag_def ty lsz)
  show ?thesis
  proof (intro conjI impI, goal_cases)
    case 1
    then show ?case by (rule idx)
  next
    case 2
    then show ?case by (rule tag)
  next
    case 3
    then show ?case using full by simp
  next
    case 4
    then show ?case using full by simp
  qed
qed

lemma default_L1_init:
  "SetAssociativeCache_init 1 32768 64 2 (2 ^ 4) ''set_associative'' = Inr default_L1"
  by (simp add: scenario_defs)

theorem address_decomposition_witness:
  "SetAssociativeCache_init 1 32768 64 2 (2 ^ 4) ''set_associative'' = Inr default_L1
   \<and> num_sets default_L1 = 2 ^ 8
   \<and> get_set_index default_L1 4096 = Inr 0
   \<and> get_tag default_L1 4096 = Inr 256
   \<and> SetAssociativeCache_init 1 32768 64 2 (2 ^ 4) ''fully_associative''
       = Inr (projr (SetAssociativeCache_init 1 32768 64 2 (2 ^ 4) ''fully_associative''))
   \<and> num_sets (projr (SetAssociativeCache_init 1 32768 64 2 (2 ^ 4) ''fully_associative''))
       = 2 ^ 0
   \<and> (64::int) \<noteq> 0
   \<and> get_set_index (projr (SetAssociativeCache_init 1 32768 64 2 (2 ^ 4) ''fully_associative''))
        100 = Inr 0
   \<and> get_tag (projr (SetAssociativeCache_init 1 32768 64 2 (2 ^ 4) ''fully_associative'')) 100
       = Inr 1"
proof -
  have i1: "SetAssociativeCache_init 1 32768 64 2 (2 ^ 4) ''set_associative'' = Inr default_L1"
    by (rule default_L1_init)
  have n1: "num_sets default_L1 = 2 ^ 8"
    by (simp add: scenario_defs)
  have i2: "SetAssociativeCache_init 1 32768 64 2 (2 ^ 4) ''fully_associative''
       = Inr (projr (SetAssociativeCache_init 1 32768 64 2 (2 ^ 4) ''fully_associative''))"
    by (simp add: SetAssociativeCache_init_def err_bind_def)
  have n2: "num_sets (projr (SetAssociativeCache_init 1 32768 64 2 (2 ^ 4) ''fully_associative''))
       = 2 ^ 0"
    by (simp add: SetAssociativeCache_init_def err_bind_def)
  have e1: "drop_bit 4 (4096::int) mod 2 ^ 8 = 0"
    and e2: "drop_bit (4 + nat (bit_length 0)) (4096::int) = 256"
    and e3: "(100::int) div 64 = 1"
    by (simp_all add: bit_length_def bit_length_nat.simps)
  from address_decomposition [OF i1 n1, of 4096] address_decomposition [OF i2 n2, of 100]
       i1 n1 i2 n2
  show ?thesis by (simp add: e1 e2 e3)
qed

text \<open>
  C5 fails as stated. On level 1 of the default cache system (\<open>B = 2 ^ 4\<close>,
  \<open>S = 2 ^ 8\<close>) address 4096 has index 0 and the code's tag is \<open>4096 >> 4 = 256\<close>, where
  the claim's \<open>4096 >> (4 + 8)\<close> is 1. On a fully associative level with line size 64
  and block size 16 the code's tag of address 100 is \<open>100 div 64 = 1\<close>, where the
  claim's \<open>100 div 16\<close> is 6.
\<close>

theorem address_decomposition_counterexample:
  "SetAssociativeCache_init 1 32768 64 2 16 ''set_associative'' = Inr default_L1
   \<and> block_size default_L1 = 2 ^ 4
   \<and> num_sets default_L1 = 2 ^ 8
   \<and> get_set_index default_L1 4096 = Inr 0
   \<and> get_tag default_L1 4096 = Inr 256
   \<and> drop_bit (4 + 8) (4096::int) = 1
   \<and> block_size (projr (SetAssociativeCache_init 1 32768 64 2 16 ''fully_associative'')) = 16
   \<and> get_tag (projr (SetAssociativeCache_init 1 32768 64 2 16 ''fully_associative'')) 100
       = Inr 1
   \<and> (100::int) div 16 = 6"
  by (simp add: scenario_defs)

subsection \<open>Eviction order\<close>

lemma py_position_less: "py_position len i = Some k \<Longrightarrow> k < len"
  by (auto simp: py_position_def split: if_splits)

lemma py_index_list_set:
  "py_index xs i = Inr s \<Longrightarrow> py_index (py_list_set xs i v) i = Inr v"
  by (auto simp: py_index_def py_list_set_def dest: py_position_less split: option.splits)

lemma LRUCache_get_set_index_frame:
  "LRUCache_get_set_index (c\<lparr> cache := C, usage_order := U \<rparr>) a = LRUCache_get_set_index c a"
  by (simp add: LRUCache_get_set_index_def)

text \<open>A miss in a set that has room, and a miss in a full set, on any contents of the sets.\<close>

lemma access_cache_room:
  assumes "LRUCache_get_set_index c a = Inr i"
    and "py_rshift a (bit_length i + bit_length (lru_block_size c) - 1) = Inr t"
    and "py_index C i = Inr CS" and "py_index U i = Inr US"
    and "\<not> contains CS t" and "int (length CS) < lru_n c"
  shows "access_cache (c\<lparr> cache := C, usage_order := U \<rparr>) a =
           (Inr False,
            c\<lparr> cache := py_list_set C i (AList.update t True CS),
               usage_order := py_list_set U i (AList.update t (max_value US + 1) US) \<rparr>)"
  using assms
  by (simp add: access_cache_def LRUCache_get_set_index_frame err_bind_def)

lemma access_cache_full:
  assumes "LRUCache_get_set_index c a = Inr i"
    and "py_rshift a (bit_length i + bit_length (lru_block_size c) - 1) = Inr t"
    and "py_index C i = Inr CS" and "py_index U i = Inr US"
    and "\<not> contains CS t" and "\<not> int (length CS) < lru_n c"
    and "min_key US = Inr l" and "contains CS l" and "contains US l"
  shows "access_cache (c\<lparr> cache := C, usage_order := U \<rparr>) a =
           (Inr False,
            c\<lparr> cache := py_list_set C i (AList.update t True (AList.delete l CS)),
               usage_order := py_list_set U i
                 (AList.update t (max_value (AList.delete l US) + 1) (AList.delete l US)) \<rparr>)"
  using assms
  by (simp add: access_cache_def LRUCache_get_set_index_frame err_bind_def dict_del_def)

lemma three_puts:
  assumes "ta \<noteq> tb" "ta \<noteq> tc" "tb \<noteq> tc"
    and "int (length (cells h ra)) \<le> bs" "int (length (cells h rb)) \<le> bs"
        "int (length (cells h rc)) \<le> bs"
  shows "entries (put_all (CacheSet_init 2 bs)
                    [(h, ta, PyDict ra), (h, tb, PyDict rb), (h, tc, PyDict rc)])
           = [(tb, rb), (tc, rc)]"
  using assms
  by (simp add: CacheSet_add_or_update_def CacheSet_init_def contains_def)

lemma four_accesses:
  assumes d: "ta \<noteq> tb" "ta \<noteq> tc" "tb \<noteq> tc"
    and n: "lru_n c = 2"
    and e: "py_index (cache c) i = Inr []" "py_index (usage_order c) i = Inr []"
    and ix: "LRUCache_get_set_index c x = Inr i" "LRUCache_get_set_index c y = Inr i"
            "LRUCache_get_set_index c z = Inr i"
    and tx: "py_rshift x (bit_length i + bit_length (lru_block_size c) - 1) = Inr ta"
    and ty: "py_rshift y (bit_length i + bit_length (lru_block_size c) - 1) = Inr tb"
    and tz: "py_rshift z (bit_length i + bit_length (lru_block_size c) - 1) = Inr tc"
  shows "fst (access_all c [x, y, z, x]) = Inr [False, False, False, False]
       \<and> fst (access_all c [x, y, z]) = Inr [False, False, False]
       \<and> py_index (cache (snd (access_all c [x, y, z]))) i = Inr [(tb, True), (tc, True)]
       \<and> py_index (cache (snd (access_all c [x, y, z, x]))) i = Inr [(tc, True), (ta, True)]"
proof -
  define C1 where "C1 = py_list_set (cache c) i [(ta, True)]"
  define U1 where "U1 = py_list_set (usage_order c) i [(ta, 1)]"
  define C2 where "C2 = py_list_set C1 i [(ta, True), (tb, True)]"
  define U2 where "U2 = py_list_set U1 i [(ta, 1), (tb, 2)]"
  define C3 where "C3 = py_list_set C2 i [(tb, True), (tc, True)]"
  define U3 where "U3 = py_list_set U2 i [(tb, 2), (tc, 3)]"
  define C4 where "C4 = py_list_set C3 i [(tc, True), (ta, True)]"
  define U4 where "U4 = py_list_set U3 i [(tc, 3), (ta, 4)]"
  have c0: "c = c\<lparr> cache := cache c, usage_order := usage_order c \<rparr>" by simp
  have i1: "py_index C1 i = Inr [(ta, True)]" "py_index U1 i = Inr [(ta, 1)]"
    unfolding C1_def U1_def by (rule py_index_list_set[OF e(1)], rule py_index_list_set[OF e(2)])
  have i2: "py_index C2 i = Inr [(ta, True), (tb, True)]" "py_index U2 i = Inr [(ta, 1), (tb, 2)]"
    unfolding C2_def U2_def by (rule py_index_list_set[OF i1(1)], rule py_index_list_set[OF i1(2)])
  have i3: "py_index C3 i = Inr [(tb, True), (tc, True)]" "py_index U3 i = Inr [(tb, 2), (tc, 3)]"
    unfolding C3_def U3_def by (rule py_index_list_set[OF i2(1)], rule py_index_list_set[OF i2(2)])
  have i4: "py_index C4 i = Inr [(tc, True), (ta, True)]"
    unfolding C4_def by (rule py_index_list_set[OF i3(1)])
  have s1: "access_cache c x = (Inr False, c\<lparr> cache := C1, usage_order := U1 \<rparr>)"
    using access_cache_room[OF ix(1) tx e, of] n
    by (simp add: contains_def max_value_def C1_def U1_def)
  have s2: "access_cache (c\<lparr> cache := C1, usage_order := U1 \<rparr>) y
              = (Inr False, c\<lparr> cache := C2, usage_order := U2 \<rparr>)"
    using access_cache_room[OF ix(2) ty i1] n d
    by (simp add: contains_def max_value_def C2_def U2_def)
  have s3: "access_cache (c\<lparr> cache := C2, usage_order := U2 \<rparr>) z
              = (Inr False, c\<lparr> cache := C3, usage_order := U3 \<rparr>)"
    using access_cache_full[OF ix(3) tz i2, of ta] n d
    by (simp add: contains_def max_value_def min_key_def AList.delete_eq C3_def U3_def)
  have s4: "access_cache (c\<lparr> cache := C3, usage_order := U3 \<rparr>) x
              = (Inr False, c\<lparr> cache := C4, usage_order := U4 \<rparr>)"
    using access_cache_full[OF ix(1) tx i3, of tb] n d
    by (simp add: contains_def max_value_def min_key_def AList.delete_eq C4_def U4_def)
  have a3: "access_all c [x, y, z] = (Inr [False, False, False], c\<lparr> cache := C3, usage_order := U3 \<rparr>)"
    by (simp add: s1 s2 s3)
  have a4: "access_all c [x, y, z, x]
              = (Inr [False, False, False, False], c\<lparr> cache := C4, usage_order := U4 \<rparr>)"
    by (simp add: s1 s2 s3 s4)
  show ?thesis unfolding a3 a4 by (simp add: i3 i4)
qed

text \<open>
  C4, as the code has it. For the accesses A, B, C, A of three distinct tags that map to
  the same set of a 2-way cache, the insertion of C forces an eviction and the evicted tag
  is A, the least recently used, not B: after the insertion the set holds B and C. This
  holds of \<open>CacheSet.add_or_update\<close> and of \<open>access_cache\<close> of the test file, where the
  final access to A is a miss like the three before it.
\<close>

theorem lru_evicts_least_recent:
  assumes "ta \<noteq> tb" "ta \<noteq> tc" "tb \<noteq> tc"
    and "int (length (cells h ra)) \<le> bs" "int (length (cells h rb)) \<le> bs"
        "int (length (cells h rc)) \<le> bs"
    and "lru_n c = 2"
    and "py_index (cache c) i = Inr []" "py_index (usage_order c) i = Inr []"
    and "LRUCache_get_set_index c x = Inr i" "LRUCache_get_set_index c y = Inr i"
        "LRUCache_get_set_index c z = Inr i"
    and "py_rshift x (bit_length i + bit_length (lru_block_size c) - 1) = Inr ta"
    and "py_rshift y (bit_length i + bit_length (lru_block_size c) - 1) = Inr tb"
    and "py_rshift z (bit_length i + bit_length (lru_block_size c) - 1) = Inr tc"
  shows "entries (put_all (CacheSet_init 2 bs)
                    [(h, ta, PyDict ra), (h, tb, PyDict rb), (h, tc, PyDict rc)])
           = [(tb, rb), (tc, rc)]
       \<and> \<not> CacheSet_check_hit
             (put_all (CacheSet_init 2 bs)
                [(h, ta, PyDict ra), (h, tb, PyDict rb), (h, tc, PyDict rc)]) ta
       \<and> CacheSet_check_hit
             (put_all (CacheSet_init 2 bs)
                [(h, ta, PyDict ra), (h, tb, PyDict rb), (h, tc, PyDict rc)]) tb
       \<and> fst (access_all c [x, y, z, x]) = Inr [False, False, False, False]
       \<and> py_index (cache (snd (access_all c [x, y, z]))) i = Inr [(tb, True), (tc, True)]"
proof -
  have puts: "entries (put_all (CacheSet_init 2 bs)
                    [(h, ta, PyDict ra), (h, tb, PyDict rb), (h, tc, PyDict rc)])
           = [(tb, rb), (tc, rc)]"
    using assms(1-6) by (rule three_puts)
  have gone: "\<not> CacheSet_check_hit
             (put_all (CacheSet_init 2 bs)
                [(h, ta, PyDict ra), (h, tb, PyDict rb), (h, tc, PyDict rc)]) ta"
    and kept: "CacheSet_check_hit
             (put_all (CacheSet_init 2 bs)
                [(h, ta, PyDict ra), (h, tb, PyDict rb), (h, tc, PyDict rc)]) tb"
    unfolding CacheSet_check_hit_def puts using assms(1-3) by (simp_all add: contains_def)
  have acc: "fst (access_all c [x, y, z, x]) = Inr [False, False, False, False]
       \<and> fst (access_all c [x, y, z]) = Inr [False, False, False]
       \<and> py_index (cache (snd (access_all c [x, y, z]))) i = Inr [(tb, True), (tc, True)]
       \<and> py_index (cache (snd (access_all c [x, y, z, x]))) i = Inr [(tc, True), (ta, True)]"
    using assms(1-3) assms(7-15) by (rule four_accesses)
  have a1: "fst (access_all c [x, y, z, x]) = Inr [False, False, False, False]"
    using acc by (rule conjunct1)
  have a2: "py_index (cache (snd (access_all c [x, y, z]))) i = Inr [(tb, True), (tc, True)]"
    using acc by (elim conjE)
  show ?thesis
    by (intro conjI) (rule puts, rule gone, rule kept, rule a1, rule a2)
qed

lemma lru_2way_eq:
  "LRUCache_init 2048 64 2 =
     Inr \<lparr> lru_n = 2, lru_block_size = 64, lru_num_sets = 16, cache = replicate 16 [],
           usage_order = replicate 16 [] \<rparr>"
  by (simp add: LRUCache_init_def)

lemmas lru_eval_defs = lru_2way_eq LRUCache_get_set_index_def access_cache_def py_index_def
  py_list_set_def py_position_def py_rshift_def py_lshift_def err_bind_def bit_length_def
  bit_length_nat.simps contains_def max_value_def min_key_def dict_del_def AList.delete_eq
  CacheSet_add_or_update_def CacheSet_init_def CacheSet_check_hit_def heap_alloc_def
  heap_empty_def length_block_data Let_def

theorem lru_evicts_least_recent_witness:
  "(4194304::int) \<noteq> 8388608 \<and> (4194304::int) \<noteq> 12582912 \<and> (8388608::int) \<noteq> 12582912
   \<and> int (length (cells (snd (heap_alloc heap_empty (block_data 16))) 0)) \<le> 16
   \<and> lru_n (projr (LRUCache_init 2048 64 2)) = 2
   \<and> py_index (cache (projr (LRUCache_init 2048 64 2))) 0 = Inr []
   \<and> py_index (usage_order (projr (LRUCache_init 2048 64 2))) 0 = Inr []
   \<and> LRUCache_get_set_index (projr (LRUCache_init 2048 64 2)) 0x10000000 = Inr 0
   \<and> LRUCache_get_set_index (projr (LRUCache_init 2048 64 2)) 0x20000000 = Inr 0
   \<and> LRUCache_get_set_index (projr (LRUCache_init 2048 64 2)) 0x30000000 = Inr 0
   \<and> py_rshift 0x10000000
        (bit_length 0 + bit_length (lru_block_size (projr (LRUCache_init 2048 64 2))) - 1)
       = Inr 4194304
   \<and> py_rshift 0x20000000
        (bit_length 0 + bit_length (lru_block_size (projr (LRUCache_init 2048 64 2))) - 1)
       = Inr 8388608
   \<and> py_rshift 0x30000000
        (bit_length 0 + bit_length (lru_block_size (projr (LRUCache_init 2048 64 2))) - 1)
       = Inr 12582912
   \<and> entries (put_all (CacheSet_init 2 16)
        [(snd (heap_alloc heap_empty (block_data 16)), 4194304, PyDict 0),
         (snd (heap_alloc heap_empty (block_data 16)), 8388608, PyDict 0),
         (snd (heap_alloc heap_empty (block_data 16)), 12582912, PyDict 0)])
       = [(8388608, 0), (12582912, 0)]
   \<and> fst (access_all (projr (LRUCache_init 2048 64 2))
             [0x10000000, 0x20000000, 0x30000000, 0x10000000])
       = Inr [False, False, False, False]
   \<and> py_index (cache (snd (access_all (projr (LRUCache_init 2048 64 2))
                                [0x10000000, 0x20000000, 0x30000000]))) 0
       = Inr [(8388608, True), (12582912, True)]"
proof -
  have d: "(4194304::int) \<noteq> 8388608" "(4194304::int) \<noteq> 12582912"
    "(8388608::int) \<noteq> 12582912"
    by simp_all
  have f: "int (length (cells (snd (heap_alloc heap_empty (block_data 16))) 0)) \<le> 16"
    by (simp add: heap_alloc_def heap_empty_def length_block_data)
  have n: "lru_n (projr (LRUCache_init 2048 64 2)) = 2"
    and e: "py_index (cache (projr (LRUCache_init 2048 64 2))) 0 = Inr []"
      "py_index (usage_order (projr (LRUCache_init 2048 64 2))) 0 = Inr []"
    by (simp_all add: lru_2way_eq py_index_def py_position_def)
  have ix: "LRUCache_get_set_index (projr (LRUCache_init 2048 64 2)) 0x10000000 = Inr 0"
    "LRUCache_get_set_index (projr (LRUCache_init 2048 64 2)) 0x20000000 = Inr 0"
    "LRUCache_get_set_index (projr (LRUCache_init 2048 64 2)) 0x30000000 = Inr 0"
    by (simp_all add: lru_2way_eq LRUCache_get_set_index_def py_rshift_def py_lshift_def
        err_bind_def bit_length_def bit_length_nat.simps)
  have t: "py_rshift 0x10000000
        (bit_length 0 + bit_length (lru_block_size (projr (LRUCache_init 2048 64 2))) - 1)
       = Inr 4194304"
    "py_rshift 0x20000000
        (bit_length 0 + bit_length (lru_block_size (projr (LRUCache_init 2048 64 2))) - 1)
       = Inr 8388608"
    "py_rshift 0x30000000
        (bit_length 0 + bit_length (lru_block_size (projr (LRUCache_init 2048 64 2))) - 1)
       = Inr 12582912"
    by (simp_all add: lru_2way_eq py_rshift_def bit_length_def bit_length_nat.simps)
  note inst = lru_evicts_least_recent [OF d f f f n e ix t]
  have r1: "entries (put_all (CacheSet_init 2 16)
        [(snd (heap_alloc heap_empty (block_data 16)), 4194304, PyDict 0),
         (snd (heap_alloc heap_empty (block_data 16)), 8388608, PyDict 0),
         (snd (heap_alloc heap_empty (block_data 16)), 12582912, PyDict 0)])
       = [(8388608, 0), (12582912, 0)]"
    using inst by (rule conjunct1)
  have r2: "fst (access_all (projr (LRUCache_init 2048 64 2))
             [0x10000000, 0x20000000, 0x30000000, 0x10000000])
       = Inr [False, False, False, False]"
    using inst by (elim conjE)
  have r3: "py_index (cache (snd (access_all (projr (LRUCache_init 2048 64 2))
                                [0x10000000, 0x20000000, 0x30000000]))) 0
       = Inr [(8388608, True), (12582912, True)]"
    using inst by (elim conjE)
  show ?thesis
    by (intro conjI) (rule d f n e ix t r1 r2 r3)+
qed

text \<open>
  C4 fails as stated. With A, B, C the tags of the addresses 0x10000000, 0x20000000 and
  0x30000000, which share set 0 of the 2-way cache of 2048 bytes with 64-byte lines:
  after the accesses A, B, C the set holds B and C, in the cache set of cache_system.py
  and in the cache of the test file alike. The evicted tag is A and B is still resident.
\<close>

theorem lru_evicts_B_counterexample:
  "CacheSet_check_hit
     (put_all (CacheSet_init 2 16)
        [(snd (heap_alloc heap_empty (block_data 16)), 4194304, PyDict 0),
         (snd (heap_alloc heap_empty (block_data 16)), 8388608, PyDict 0),
         (snd (heap_alloc heap_empty (block_data 16)), 12582912, PyDict 0)]) 8388608
   \<and> \<not> CacheSet_check_hit
     (put_all (CacheSet_init 2 16)
        [(snd (heap_alloc heap_empty (block_data 16)), 4194304, PyDict 0),
         (snd (heap_alloc heap_empty (block_data 16)), 8388608, PyDict 0),
         (snd (heap_alloc heap_empty (block_data 16)), 12582912, PyDict 0)]) 4194304
   \<and> access_all (projr (LRUCache_init 2048 64 2)) [0x10000000, 0x20000000, 0x30000000]
       = (Inr [False, False, False],
          \<lparr> lru_n = 2, lru_block_size = 64, lru_num_sets = 16,
            cache = (replicate 16 [])[0 := [(8388608, True), (12582912, True)]],
            usage_order = (replicate 16 [])[0 := [(8388608, 2), (12582912, 3)]] \<rparr>)
   \<and> fst (access_all (projr (LRUCache_init 2048 64 2))
             [0x10000000, 0x20000000, 0x30000000, 0x10000000])
       = Inr [False, False, False, False]"
  by (auto simp add: lru_eval_defs)

subsection \<open>Write-allocate in the MMU\<close>












end
